theory Spec2Isabelle
  imports Main "HOL-Library.AList"
begin

section \<open>Strings\<close>

text \<open>
  A Go string is a sequence of bytes; a \<^typ>\<open>string\<close> is a list of 8-bit characters.
  \<open>strings.HasPrefix\<close> and \<open>strings.Contains\<close> compare bytes and are modelled in
  full. \<open>strings.ToLower\<close> and \<open>strings.TrimSpace\<close> work by the Unicode tables of
  the Go library, which are not part of the repository: the functions that call them
  take the two as a parameter, a \<open>stringsPkg\<close>, and every theorem holds for whatever
  the two functions return.
\<close>

record stringsPkg =
  ToLower :: "string \<Rightarrow> string"
  TrimSpace :: "string \<Rightarrow> string"

fun HasPrefix :: "string \<Rightarrow> string \<Rightarrow> bool" where
  "HasPrefix s [] = True"
| "HasPrefix [] (p # ps) = False"
| "HasPrefix (c # cs) (p # ps) = (c = p \<and> HasPrefix cs ps)"

fun Contains :: "string \<Rightarrow> string \<Rightarrow> bool" where
  "Contains [] substr = (substr = [])"
| "Contains (c # cs) substr = (HasPrefix (c # cs) substr \<or> Contains cs substr)"

section \<open>The message bus\<close>

text \<open>
  What is published: \<open>StatusMessage\<close> and \<open>OutputMessage\<close> of \<open>messages.go\<close> and the
  crash map of \<open>publishCrash\<close>, before their JSON encoding. Time stamps are readings of
  the clock of the world. The text of a crash message is
  \<open>"Aider process crashed (PID: %d, uptime: %s)"\<close>; the model keeps its two arguments.
\<close>

datatype message =
    StatusMessage string string string nat
  | OutputMessage string string string nat
  | CrashMessage string string nat int nat

text \<open>
  The connection of the NATS library: once closed it stays closed, and \<open>Publish\<close> and
  \<open>Subscribe\<close> on a closed connection return an error and do nothing.
\<close>

record Conn =
  closed :: bool
  published :: "(string \<times> message) list"
  subscriptions :: "string list"

type_synonym ref = nat
type_synonym pid = nat

datatype StatResult = StatOk | StatNotExist | StatOtherError

datatype ExecOutcome =
  StdinPipeFails | StdoutPipeFails | StderrPipeFails | StartFails | Started

text \<open>
  An operating-system process as the supervisor sees it. \<open>running\<close>: the null signal
  finds the process, that is \<open>Signal(0)\<close> returns nil; whether it does is for the
  operating system to say (a child that has exited and has not been waited for is still
  found; after \<open>Wait\<close> has returned it is not). \<open>exitsOnQuit\<close>: \<open>Wait\<close> returns within the
  five seconds after the request to quit. \<open>exitsOnTerm\<close>: it returns within the three
  seconds after SIGTERM. \<open>killSucceeds\<close>: \<open>Kill\<close> returns nil.
\<close>

record Proc =
  running :: bool
  exitsOnQuit :: bool
  exitsOnTerm :: bool
  killSucceeds :: bool

text \<open>
  Everything outside one component: the connections (a store, since several components
  can hold a pointer to one connection), the clock, the file system as \<open>os.Stat\<close>
  answers, the outcome of the next \<open>exec\<close>, the processes, and the source of
  \<open>uuid.New\<close>.
\<close>

record world =
  conns :: "ref \<Rightarrow> Conn"
  now :: nat
  stat :: "string \<Rightarrow> StatResult"
  nextExec :: ExecOutcome
  procs :: "pid \<Rightarrow> Proc"
  started :: "pid list"
  uuids :: "nat \<Rightarrow> string"
  uuidCount :: nat

datatype error =
    ConnectionClosed
  | SubscribeFailed
  | FileClosed
  | PathRequired
  | PathDoesNotExist string
  | PipeFailed
  | StartFailed
  | BridgeStartFailed
  | AgentNotFound string
  | KillFailed string

definition Publish :: "ref \<Rightarrow> string \<Rightarrow> message \<Rightarrow> world \<Rightarrow> error option \<times> world" where
  "Publish c subject m w =
     (let cn = conns w c in
      if closed cn then (Some ConnectionClosed, w)
      else (None, w\<lparr>conns := (conns w)(c := cn\<lparr>published := published cn @ [(subject, m)]\<rparr>)\<rparr>))"

definition PublishJSON :: "ref \<Rightarrow> string \<Rightarrow> message \<Rightarrow> world \<Rightarrow> error option \<times> world" where
  "PublishJSON c subject m w = Publish c subject m w"

definition Subscribe :: "ref \<Rightarrow> string \<Rightarrow> world \<Rightarrow> error option \<times> world" where
  "Subscribe c subject w =
     (let cn = conns w c in
      if closed cn then (Some SubscribeFailed, w)
      else (None, w\<lparr>conns := (conns w)(c := cn\<lparr>subscriptions := subscriptions cn @ [subject]\<rparr>)\<rparr>))"

definition Close :: "ref \<Rightarrow> world \<Rightarrow> world" where
  "Close c w = w\<lparr>conns := (conns w)(c := (conns w c)\<lparr>closed := True\<rparr>)\<rparr>"

definition SubjectAgentStatus :: "string \<Rightarrow> string" where
  "SubjectAgentStatus a = ''agent.'' @ a @ ''.status''"

definition SubjectAgentCommand :: "string \<Rightarrow> string" where
  "SubjectAgentCommand a = ''agent.'' @ a @ ''.command''"

definition SubjectAgentOutput :: "string \<Rightarrow> string" where
  "SubjectAgentOutput a = ''agent.'' @ a @ ''.output''"

section \<open>The bridge\<close>

text \<open>
  The write end of the pipe to the standard input of the process, and the read ends of
  its two output pipes. Writing to a closed file fails and writes nothing.
\<close>

record WriteCloser =
  wclosed :: bool
  written :: string

record ReadCloser =
  rclosed :: bool

definition Fprint :: "WriteCloser \<Rightarrow> string \<Rightarrow> error option \<times> WriteCloser" where
  "Fprint f s =
     (if wclosed f then (Some FileClosed, f) else (None, f\<lparr>written := written f @ s\<rparr>))"

definition Fprintln :: "WriteCloser \<Rightarrow> string \<Rightarrow> error option \<times> WriteCloser" where
  "Fprintln f s = Fprint f (s @ [CHR 0x0A])"

text \<open>
  The fields of \<open>Bridge\<close>. The three files and the client are the ones \<open>NewBridge\<close>
  receives from \<open>SpawnAgent\<close>: the pipes of the command and a connection, none of them
  nil, so that the tests against nil in \<open>Stop\<close> always pass. \<open>stopCh\<close> is \<open>True\<close> once
  the channel is closed.
\<close>

record Bridge =
  agentID :: string
  status :: string
  currentTask :: string
  stdin :: WriteCloser
  stdout :: ReadCloser
  stderr :: ReadCloser
  natsClient :: ref
  connected :: bool
  stopCh :: bool

definition NewBridge :: "string \<Rightarrow> ref \<Rightarrow> WriteCloser \<Rightarrow> ReadCloser \<Rightarrow> ReadCloser \<Rightarrow> Bridge" where
  "NewBridge aid nc sin sout serr =
     \<lparr>agentID = aid, status = ''starting'', currentTask = [],
      stdin = sin, stdout = sout, stderr = serr,
      natsClient = nc, connected = False, stopCh = False\<rparr>"

definition publishStatus :: "string \<Rightarrow> string \<Rightarrow> Bridge \<Rightarrow> world \<Rightarrow> Bridge \<times> world" where
  "publishStatus st task b w =
     (let b' = b\<lparr>status := st, currentTask := task\<rparr>;
          m = StatusMessage (agentID b') st task (now w)
      in (b', snd (PublishJSON (natsClient b') (SubjectAgentStatus (agentID b')) m w)))"

definition publishOutput :: "string \<Rightarrow> string \<Rightarrow> Bridge \<Rightarrow> world \<Rightarrow> Bridge \<times> world" where
  "publishOutput stream line b w =
     (let m = OutputMessage (agentID b) stream line (now w)
      in (b, snd (PublishJSON (natsClient b) (SubjectAgentOutput (agentID b)) m w)))"

definition GetStatus :: "Bridge \<Rightarrow> string \<times> string" where
  "GetStatus b = (status b, currentTask b)"


text \<open>
  The \<open>switch\<close> of \<open>parseAiderLine\<close>, on the lower-cased line, the trimmed line and
  the line: the new status and task, or \<open>None\<close> where the default case returns.
\<close>

definition lineSwitch :: "string \<Rightarrow> string \<Rightarrow> string \<Rightarrow> (string \<times> string) option" where
  "lineSwitch lower trimmed line =
     (if Contains lower ''thinking'' then Some (''working'', ''Thinking...'')
      else if Contains lower ''applied edit'' then Some (''working'', ''Applied edit to files'')
      else if HasPrefix trimmed ''>'' then Some (''idle'', ''Awaiting prompt'')
      else if Contains lower ''error'' then Some (''error'', line)
      else if Contains lower ''commit'' then Some (''working'', ''Committing changes'')
      else if Contains lower ''added'' then Some (''working'', ''Adding files to context'')
      else if Contains lower ''searching'' then Some (''working'', ''Searching codebase'')
      else if Contains lower ''reading'' then Some (''working'', ''Reading files'')
      else None)"

definition parseAiderLine :: "stringsPkg \<Rightarrow> string \<Rightarrow> Bridge \<Rightarrow> world \<Rightarrow> Bridge \<times> world" where
  "parseAiderLine strings line b w =
     (case lineSwitch (ToLower strings line) (TrimSpace strings line) line of
        None \<Rightarrow> (b, w)
      | Some (newStatus, newTask) \<Rightarrow>
          publishStatus newStatus newTask (b\<lparr>status := newStatus, currentTask := newTask\<rparr>) w)"

text \<open>
  \<open>Start\<close>: the subscription, then the two reader goroutines (their iterations are the
  functions below), then, as \<open>Start_mark\<close>, the mark and the first status.
\<close>

definition Start_mark :: "Bridge \<Rightarrow> world \<Rightarrow> Bridge \<times> world" where
  "Start_mark b w =
     publishStatus ''connected'' ''Aider ready''
       (b\<lparr>connected := True, status := ''connected'', currentTask := ''Aider ready''\<rparr>) w"

definition Start :: "Bridge \<Rightarrow> world \<Rightarrow> error option \<times> Bridge \<times> world" where
  "Start b w =
     (case Subscribe (natsClient b) (SubjectAgentCommand (agentID b)) w of
        (Some err, w') \<Rightarrow> (Some err, b, w')
      | (None, w') \<Rightarrow> (let (b'', w'') = Start_mark b w' in (None, b'', w'')))"

definition CloseWriter :: "WriteCloser \<Rightarrow> WriteCloser" where
  "CloseWriter f = f\<lparr>wclosed := True\<rparr>"

definition CloseReader :: "ReadCloser \<Rightarrow> ReadCloser" where
  "CloseReader f = f\<lparr>rclosed := True\<rparr>"

text \<open>
  \<open>Stop\<close> in two parts. \<open>Stop_close\<close>, once the channel is found open: close the
  channel, clear the mark, write the command to quit and close the three files.
  \<open>Stop_publish\<close>: publish the status and close the client.
\<close>

definition Stop_close :: "Bridge \<Rightarrow> Bridge" where
  "Stop_close b =
     (let b1 = b\<lparr>stopCh := True\<rparr>;
          b2 = b1\<lparr>connected := False\<rparr>;
          b3 = b2\<lparr>stdin := CloseWriter (snd (Fprintln (stdin b2) ''/quit''))\<rparr>;
          b4 = b3\<lparr>stdout := CloseReader (stdout b3)\<rparr>
      in b4\<lparr>stderr := CloseReader (stderr b4)\<rparr>)"

definition Stop_publish :: "Bridge \<Rightarrow> world \<Rightarrow> Bridge \<times> world" where
  "Stop_publish b w =
     (let (b6, w6) = publishStatus ''disconnected'' ''Bridge stopped'' b w
      in (b6, Close (natsClient b6) w6))"

definition Stop :: "Bridge \<Rightarrow> world \<Rightarrow> Bridge \<times> world" where
  "Stop b w = (if stopCh b then (b, w) else Stop_publish (Stop_close b) w)"

text \<open>
  The loop of \<open>parseAiderOutput\<close>. One iteration, for a line the scanner delivered:
  return where the channel is closed, else classify the line and publish it. The end of
  the loop, where the scanner delivers no more (end of file, a read error, or the file
  closed under the reader): mark the bridge as not connected and publish; the channel
  is not looked at there. The whole loop runs over the lines the process writes until
  its output ends.
\<close>

definition parseAiderOutput_line ::
  "stringsPkg \<Rightarrow> string \<Rightarrow> Bridge \<Rightarrow> world \<Rightarrow> Bridge \<times> world" where
  "parseAiderOutput_line strings line b w =
     (if stopCh b then (b, w)
      else (let (b1, w1) = parseAiderLine strings line b w
            in publishOutput ''stdout'' line b1 w1))"

definition parseAiderOutput_end :: "Bridge \<Rightarrow> world \<Rightarrow> Bridge \<times> world" where
  "parseAiderOutput_end b w =
     publishStatus ''disconnected'' ''Aider process ended'' (b\<lparr>connected := False\<rparr>) w"

fun parseAiderOutput :: "stringsPkg \<Rightarrow> string list \<Rightarrow> Bridge \<Rightarrow> world \<Rightarrow> Bridge \<times> world" where
  "parseAiderOutput strings [] b w = parseAiderOutput_end b w"
| "parseAiderOutput strings (line # rest) b w =
     (if stopCh b then (b, w)
      else (let (b1, w1) = parseAiderLine strings line b w;
                (b2, w2) = publishOutput ''stdout'' line b1 w1
            in parseAiderOutput strings rest b2 w2))"

definition parseAiderErrors_line ::
  "stringsPkg \<Rightarrow> string \<Rightarrow> Bridge \<Rightarrow> world \<Rightarrow> Bridge \<times> world" where
  "parseAiderErrors_line strings line b w =
     (if stopCh b then (b, w)
      else (let (b1, w1) = publishOutput ''stderr'' line b w
            in if Contains (ToLower strings line) ''error'' then publishStatus ''error'' line b1 w1
               else (b1, w1)))"

fun parseAiderErrors :: "stringsPkg \<Rightarrow> string list \<Rightarrow> Bridge \<Rightarrow> world \<Rightarrow> Bridge \<times> world" where
  "parseAiderErrors strings [] b w = (b, w)"
| "parseAiderErrors strings (line # rest) b w =
     (if stopCh b then (b, w)
      else (let (b1, w1) = parseAiderErrors_line strings line b w
            in parseAiderErrors strings rest b1 w1))"

text \<open>
  A command as \<open>json.Unmarshal\<close> decodes it into \<open>CommandMessage\<close>: the type and the
  payload, a map from keys to JSON values. The assertion \<open>.(string)\<close> holds for a JSON
  string only.
\<close>

datatype json =
    JNull | JBool bool | JNumber int | JString string
  | JArray "json list" | JObject "(string \<times> json) list"

record CommandMessage =
  Type :: string
  Payload :: "string \<rightharpoonup> json"

definition asString :: "json option \<Rightarrow> string option" where
  "asString v = (case v of Some (JString s) \<Rightarrow> Some s | _ \<Rightarrow> None)"

text \<open>
  \<open>handleCommand\<close> on the outcome of the decoding of the data of the message: \<open>None\<close>
  where the data is not such a JSON text.
\<close>

definition handleCommand :: "CommandMessage option \<Rightarrow> Bridge \<Rightarrow> world \<Rightarrow> Bridge \<times> world" where
  "handleCommand decoded b w =
     (case decoded of
        None \<Rightarrow> (b, w)
      | Some cmd \<Rightarrow>
          if Type cmd = ''prompt'' then
            (case asString (Payload cmd ''text'') of
               Some text \<Rightarrow>
                 (let b1 = b\<lparr>currentTask := text\<rparr>;
                      (b2, w2) = publishStatus ''working'' ''Processing prompt'' b1 w
                  in (b2\<lparr>stdin := snd (Fprintln (stdin b2) text)\<rparr>, w2))
             | None \<Rightarrow> (b, w))
          else if Type cmd = ''stop'' then
            publishStatus ''stopping'' ''Quitting Aider''
              (b\<lparr>stdin := snd (Fprintln (stdin b) ''/quit'')\<rparr>) w
          else if Type cmd = ''clear'' then
            publishStatus ''working'' ''Clearing chat history''
              (b\<lparr>stdin := snd (Fprintln (stdin b) ''/clear'')\<rparr>) w
          else if Type cmd = ''add'' then
            (case asString (Payload cmd ''file'') of
               Some file \<Rightarrow>
                 publishStatus ''working'' (''Adding file: '' @ file)
                   (b\<lparr>stdin := snd (Fprint (stdin b) (''/add '' @ file @ [CHR 0x0A]))\<rparr>) w
             | None \<Rightarrow> (b, w))
          else if Type cmd = ''drop'' then
            (case asString (Payload cmd ''file'') of
               Some file \<Rightarrow>
                 publishStatus ''working'' (''Dropping file: '' @ file)
                   (b\<lparr>stdin := snd (Fprint (stdin b) (''/drop '' @ file @ [CHR 0x0A]))\<rparr>) w
             | None \<Rightarrow> (b, w))
          else (b, w))"

definition SendPrompt :: "string \<Rightarrow> Bridge \<Rightarrow> world \<Rightarrow> error option \<times> Bridge \<times> world" where
  "SendPrompt prompt b w =
     (let b1 = b\<lparr>currentTask := prompt\<rparr>;
          (b2, w2) = publishStatus ''working'' ''Processing prompt'' b1 w;
          (err, f) = Fprintln (stdin b2) prompt
      in (err, b2\<lparr>stdin := f\<rparr>, w2))"

definition SendCommand :: "string \<Rightarrow> Bridge \<Rightarrow> error option \<times> Bridge" where
  "SendCommand cmd b = (let (err, f) = Fprintln (stdin b) cmd in (err, b\<lparr>stdin := f\<rparr>))"

text \<open>
  What the goroutines beside a caller of \<open>Start\<close> or \<open>Stop\<close> do to a bridge: the
  iterations of its two readers, the delivery of a command, and the two sending
  methods.
\<close>

datatype op =
    StdoutLine string | StdoutEnd
  | StderrLine string
  | Command "CommandMessage option"
  | CallSendPrompt string | CallSendCommand string

fun opStep :: "stringsPkg \<Rightarrow> Bridge \<times> world \<Rightarrow> op \<Rightarrow> Bridge \<times> world" where
  "opStep strings (b, w) (StdoutLine line) = parseAiderOutput_line strings line b w"
| "opStep strings (b, w) StdoutEnd = parseAiderOutput_end b w"
| "opStep strings (b, w) (StderrLine line) = parseAiderErrors_line strings line b w"
| "opStep strings (b, w) (Command decoded) = handleCommand decoded b w"
| "opStep strings (b, w) (CallSendPrompt p) = snd (SendPrompt p b w)"
| "opStep strings (b, w) (CallSendCommand c) = (snd (SendCommand c b), w)"

text \<open>
  What can happen to one bridge. A call of \<open>Start\<close> or of \<open>Stop\<close> is not one step of
  the bridge: the other goroutines run while it is under way. \<open>CallStart inside\<close> is a
  call of \<open>Start\<close> with the operations \<open>inside\<close> running after the readers are
  launched and before the mark is set; where the subscription fails, \<open>Start\<close> returns
  before it launches them. \<open>CallStop inside\<close> is a call of \<open>Stop\<close> with the operations
  \<open>inside\<close> running after the files are closed and before the status is published: it
  is the closing of the standard output that wakes its reader. The other operations
  are taken as wholes, and calls of \<open>Start\<close> and \<open>Stop\<close> do not overlap one
  another: \<open>SpawnAgent\<close> calls \<open>Start\<close> before the agent is in the map, and \<open>Stop\<close>
  is called for an agent taken from the map.
\<close>

datatype event = Op op | CallStart "op list" | CallStop "op list"

fun step :: "stringsPkg \<Rightarrow> Bridge \<times> world \<Rightarrow> event \<Rightarrow> Bridge \<times> world" where
  "step strings (b, w) (Op x) = opStep strings (b, w) x"
| "step strings (b, w) (CallStart inside) =
     (case Subscribe (natsClient b) (SubjectAgentCommand (agentID b)) w of
        (Some err, w') \<Rightarrow> (b, w')
      | (None, w') \<Rightarrow>
          (case foldl (opStep strings) (b, w') inside of (b1, w1) \<Rightarrow> Start_mark b1 w1))"
| "step strings (b, w) (CallStop inside) =
     (if stopCh b then (b, w)
      else (case foldl (opStep strings) (Stop_close b, w) inside of
              (b1, w1) \<Rightarrow> Stop_publish b1 w1))"

definition run :: "stringsPkg \<Rightarrow> Bridge \<times> world \<Rightarrow> event list \<Rightarrow> Bridge \<times> world" where
  "run strings s evs = foldl (step strings) s evs"

section \<open>The supervisor\<close>

text \<open>
  The supervisor holds a \<open>*nats.Conn\<close> and hands it to \<open>NewBridge\<close>. The bridge that
  takes a \<open>*nats.Conn\<close> is the one of the other bridge file of the source
  (\<open>part_002\<close>), whose field is \<open>natsConn\<close>; the bridge of \<open>bridge.go\<close> takes a
  \<open>*natslib.Client\<close>. The two files agree, statement for statement, on
  \<open>NewBridge\<close>, \<open>Start\<close>, \<open>publishStatus\<close>, \<open>SendCommand\<close> and on all of
  \<open>Stop\<close> but its end: on a
  \<open>*nats.Conn\<close>, \<open>Stop\<close> publishes the status and closes no connection. That
  \<open>Stop\<close> is \<open>Stop_natsConn\<close>, and it is the one the supervisor calls; the field
  \<open>natsClient\<close> of the record stands for \<open>natsConn\<close> there.
\<close>

definition Stop_natsConn :: "Bridge \<Rightarrow> world \<Rightarrow> Bridge \<times> world" where
  "Stop_natsConn b w =
     (if stopCh b then (b, w)
      else publishStatus ''disconnected'' ''Bridge stopped'' (Stop_close b) w)"

record AgentConfig =
  Name :: string
  Role :: string
  Color :: string
  ProjectPath :: string

text \<open>
  \<open>Agent\<close>: its fields \<open>ProjectPath\<close> and \<open>Bridge\<close> are \<open>AgentProjectPath\<close> and
  \<open>AgentBridge\<close> here; \<open>Process\<close> and \<open>cmd\<close> are the one process.
\<close>

record Agent =
  ID :: string
  AgentProjectPath :: string
  Model :: string
  AgentBridge :: Bridge
  Process :: pid
  StartedAt :: nat

text \<open>
  \<open>Spawner\<close>: the connection, the map of the agents (a list of entries with distinct
  keys, in the order in which a \<open>range\<close> visits them) and its \<open>stopCh\<close>, here
  \<open>monitorStopped\<close>.
\<close>

record Spawner =
  natsConn :: ref
  agents :: "(string \<times> Agent) list"
  monitorStopped :: bool

definition NewSpawner :: "ref \<Rightarrow> Spawner" where
  "NewSpawner nc = \<lparr>natsConn = nc, agents = [], monitorStopped = False\<rparr>"

text \<open>
  \<open>Process.Kill\<close>: its error. The process it kills stays in the process table until
  it is waited for.
\<close>

definition Kill :: "pid \<Rightarrow> world \<Rightarrow> error option" where
  "Kill p w = (if killSucceeds (procs w p) then None else Some (KillFailed []))"

text \<open>
  \<open>cmd.Wait\<close> has returned: the process is gone, and from then on \<open>Signal\<close> returns an
  error.
\<close>

definition waited :: "pid \<Rightarrow> world \<Rightarrow> world" where
  "waited p w = w\<lparr>procs := (procs w)(p := (procs w p)\<lparr>running := False\<rparr>)\<rparr>"

text \<open>
  \<open>SpawnAgent\<close>. The process that \<open>cmd.Start\<close> starts is the next of the process
  table; it is recorded in \<open>started\<close>.
\<close>

definition SpawnAgent ::
  "AgentConfig \<Rightarrow> Spawner \<Rightarrow> world \<Rightarrow> (error + Agent) \<times> Spawner \<times> world" where
  "SpawnAgent agentConfig s w =
     (let aid = ''aider-'' @ take 8 (uuids w (uuidCount w));
          w0 = w\<lparr>uuidCount := uuidCount w + 1\<rparr>
      in
      if ProjectPath agentConfig = [] then (Inl PathRequired, s, w0)
      else if stat w0 (ProjectPath agentConfig) = StatNotExist
        then (Inl (PathDoesNotExist (ProjectPath agentConfig)), s, w0)
      else
        (case nextExec w0 of
           StdinPipeFails \<Rightarrow> (Inl PipeFailed, s, w0)
         | StdoutPipeFails \<Rightarrow> (Inl PipeFailed, s, w0)
         | StderrPipeFails \<Rightarrow> (Inl PipeFailed, s, w0)
         | StartFails \<Rightarrow> (Inl StartFailed, s, w0)
         | Started \<Rightarrow>
             (let p = length (started w0);
                  w1 = w0\<lparr>started := started w0 @ [p]\<rparr>;
                  bridge = NewBridge aid (natsConn s)
                             \<lparr>wclosed = False, written = []\<rparr>
                             \<lparr>rclosed = False\<rparr> \<lparr>rclosed = False\<rparr>
              in
              (case Start bridge w1 of
                 (Some err, b', w2) \<Rightarrow>
                   (let killed = Kill p w2 in (Inl BridgeStartFailed, s, w2))
               | (None, b', w2) \<Rightarrow>
                   (let agent = \<lparr>ID = aid,
                                 AgentProjectPath = ProjectPath agentConfig,
                                 Model = ''openai/qwen2.5-coder-7b-instruct'',
                                 AgentBridge = b',
                                 Process = p,
                                 StartedAt = now w2\<rparr>
                    in (Inr agent, s\<lparr>agents := AList.update aid agent (agents s)\<rparr>, w2))))))"

text \<open>
  \<open>StopAgent\<close>. The two \<open>select\<close> statements wait for \<open>Wait\<close> to return and for a
  timer; which of the two comes first is what the process does, as \<open>Proc\<close> tells.
\<close>

definition StopAgent :: "string \<Rightarrow> Spawner \<Rightarrow> world \<Rightarrow> error option \<times> Spawner \<times> world" where
  "StopAgent aid s w =
     (case map_of (agents s) aid of
        None \<Rightarrow> (Some (AgentNotFound aid), s, w)
      | Some agent \<Rightarrow>
          (let s1 = s\<lparr>agents := AList.delete aid (agents s)\<rparr>;
               (b1, w1) = Stop_natsConn (AgentBridge agent) w;
               (_, b2) = SendCommand ''/quit'' b1;
               p = Process agent
           in
           if \<not> running (procs w1 p) \<or> exitsOnQuit (procs w1 p) then (None, s1, waited p w1)
           else if exitsOnTerm (procs w1 p) then (None, s1, waited p w1)
           else
             (case Kill p w1 of
                Some err \<Rightarrow> (Some (KillFailed aid), s1, w1)
              | None \<Rightarrow> (None, s1, waited p w1))))"


definition ListAgents :: "Spawner \<Rightarrow> Agent list" where
  "ListAgents s = map snd (agents s)"






section \<open>Notions for the statements\<close>

text \<open>What has been published through a connection.\<close>

definition publishedOn :: "world \<Rightarrow> ref \<Rightarrow> (string \<times> message) list" where
  "publishedOn w c = published (conns w c)"



text \<open>The world once \<open>Start\<close> has subscribed.\<close>

definition subscribed :: "Bridge \<Rightarrow> world \<Rightarrow> world" where
  "subscribed b w = snd (Subscribe (natsClient b) (SubjectAgentCommand (agentID b)) w)"









subsection \<open>A concrete bridge, world and supervisor\<close>

text \<open>
  The two functions of package \<open>strings\<close> on ASCII text: the letters A to Z are
  folded, the six ASCII white-space bytes are trimmed. On a line of ASCII bytes they
  return what the library returns.
\<close>

definition toLowerByte :: "char \<Rightarrow> char" where
  "toLowerByte c =
     (let n = (of_char c :: nat) in if 65 \<le> n \<and> n \<le> 90 then char_of (n + 32) else c)"

definition isSpace :: "char \<Rightarrow> bool" where
  "isSpace c = ((of_char c :: nat) \<in> {9, 10, 11, 12, 13, 32})"

definition asciiStrings :: stringsPkg where
  "asciiStrings =
     \<lparr>ToLower = map toLowerByte,
      TrimSpace = (\<lambda>s. rev (dropWhile isSpace (rev (dropWhile isSpace s))))\<rparr>"

definition pipe0 :: WriteCloser where
  "pipe0 = \<lparr>wclosed = False, written = []\<rparr>"

definition reader0 :: ReadCloser where
  "reader0 = \<lparr>rclosed = False\<rparr>"

definition bridge0 :: Bridge where
  "bridge0 = NewBridge ''aider-1a2b3c4d'' 0 pipe0 reader0 reader0"

definition world0 :: world where
  "world0 = \<lparr>conns = (\<lambda>c. \<lparr>closed = False, published = [], subscriptions = []\<rparr>),
             now = 0,
             stat = (\<lambda>p. if p = ''/srv/project'' then StatOk else StatNotExist),
             nextExec = Started,
             procs = (\<lambda>p. \<lparr>running = True, exitsOnQuit = True, exitsOnTerm = True,
                            killSucceeds = True\<rparr>),
             started = [],
             uuids = (\<lambda>n. ''1a2b3c4d-0000-4000-8000-000000000000''),
             uuidCount = 0\<rparr>"

definition config0 :: AgentConfig where
  "config0 = \<lparr>Name = ''Qwen-Agent'', Role = ''developer'', Color = [],
              ProjectPath = ''/srv/project''\<rparr>"

text \<open>One agent spawned by a new supervisor on connection 0.\<close>

definition afterSpawn :: "(error + Agent) \<times> Spawner \<times> world" where
  "afterSpawn = SpawnAgent config0 (NewSpawner 0) world0"



section \<open>The classification of a line\<close>

lemma publishStatus_fst:
  "fst (publishStatus st task b w) = b\<lparr>status := st, currentTask := task\<rparr>"
  by (simp add: publishStatus_def Let_def)

lemma publishStatus_published:
  "publishedOn (snd (publishStatus st task b w)) c =
     (if c = natsClient b \<and> \<not> closed (conns w c)
      then publishedOn w c @
           [(SubjectAgentStatus (agentID b), StatusMessage (agentID b) st task (now w))]
      else publishedOn w c)"
  by (simp add: publishStatus_def Let_def PublishJSON_def Publish_def publishedOn_def)

text \<open>
  Claim C1. A line whose lower-cased text, as \<open>strings.ToLower\<close> returns it, contains
  both "thinking" and "error" is classified as (working, "Thinking..."): the switch
  yields that pair, the bridge holds it afterwards, its status is not "error", and the
  status event with that pair is the one event published (none where the connection is
  closed).
\<close>

theorem thinking_wins_over_error:
  assumes "Contains (ToLower strings line) ''thinking''"
    and "Contains (ToLower strings line) ''error''"
  shows "lineSwitch (ToLower strings line) (TrimSpace strings line) line
           = Some (''working'', ''Thinking...'')
       \<and> GetStatus (fst (parseAiderLine strings line b w)) = (''working'', ''Thinking...'')
       \<and> status (fst (parseAiderLine strings line b w)) \<noteq> ''error''
       \<and> publishedOn (snd (parseAiderLine strings line b w)) (natsClient b) =
           (if closed (conns w (natsClient b)) then publishedOn w (natsClient b)
            else publishedOn w (natsClient b) @
                 [(SubjectAgentStatus (agentID b),
                   StatusMessage (agentID b) ''working'' ''Thinking...'' (now w))])"
  using assms
  by (simp add: lineSwitch_def parseAiderLine_def GetStatus_def publishStatus_fst
      publishStatus_published)

theorem thinking_wins_over_error_witness:
  "Contains (ToLower asciiStrings ''Thinking about the ERROR'') ''thinking''
   \<and> Contains (ToLower asciiStrings ''Thinking about the ERROR'') ''error''
   \<and> GetStatus (fst (parseAiderLine asciiStrings ''Thinking about the ERROR'' bridge0 world0))
       = (''working'', ''Thinking...'')"
proof -
  have h1: "Contains (ToLower asciiStrings ''Thinking about the ERROR'') ''thinking''"
    by code_simp
  have h2: "Contains (ToLower asciiStrings ''Thinking about the ERROR'') ''error''"
    by code_simp
  from thinking_wins_over_error [OF h1 h2, of bridge0 world0] h1 h2 show ?thesis by blast
qed

text \<open>
  Claim C2. A line whose lower-cased text, as \<open>strings.ToLower\<close> returns it, contains
  "error" and neither "thinking" nor "applied edit", and whose trimmed text, as
  \<open>strings.TrimSpace\<close> returns it, does not begin with ">", is classified as (error,
  the line itself, unchanged): the switch yields that pair, the bridge holds it
  afterwards, and the status event with that pair is the one event published.
\<close>

theorem error_line_verbatim:
  assumes "Contains (ToLower strings line) ''error''"
    and "\<not> Contains (ToLower strings line) ''thinking''"
    and "\<not> Contains (ToLower strings line) ''applied edit''"
    and "\<not> HasPrefix (TrimSpace strings line) ''>''"
  shows "lineSwitch (ToLower strings line) (TrimSpace strings line) line = Some (''error'', line)
       \<and> GetStatus (fst (parseAiderLine strings line b w)) = (''error'', line)
       \<and> publishedOn (snd (parseAiderLine strings line b w)) (natsClient b) =
           (if closed (conns w (natsClient b)) then publishedOn w (natsClient b)
            else publishedOn w (natsClient b) @
                 [(SubjectAgentStatus (agentID b),
                   StatusMessage (agentID b) ''error'' line (now w))])"
  using assms
  by (simp add: lineSwitch_def parseAiderLine_def GetStatus_def publishStatus_fst
      publishStatus_published)

theorem error_line_verbatim_witness:
  "Contains (ToLower asciiStrings ''  Error: file not found'') ''error''
   \<and> \<not> Contains (ToLower asciiStrings ''  Error: file not found'') ''thinking''
   \<and> \<not> Contains (ToLower asciiStrings ''  Error: file not found'') ''applied edit''
   \<and> \<not> HasPrefix (TrimSpace asciiStrings ''  Error: file not found'') ''>''
   \<and> GetStatus (fst (parseAiderLine asciiStrings ''  Error: file not found'' bridge0 world0))
       = (''error'', ''  Error: file not found'')"
proof -
  have h1: "Contains (ToLower asciiStrings ''  Error: file not found'') ''error''"
    by code_simp
  have h2: "\<not> Contains (ToLower asciiStrings ''  Error: file not found'') ''thinking''"
    by code_simp
  have h3: "\<not> Contains (ToLower asciiStrings ''  Error: file not found'') ''applied edit''"
    by code_simp
  have h4: "\<not> HasPrefix (TrimSpace asciiStrings ''  Error: file not found'') ''>''"
    by code_simp
  from error_line_verbatim [OF h1 h2 h3 h4, of bridge0 world0] h1 h2 h3 h4
  show ?thesis by blast
qed

section \<open>Commands\<close>

lemma handleCommand_prompt:
  assumes "Type cmd = ''prompt''" and "Payload cmd ''text'' = Some (JString text)"
  shows "fst (handleCommand (Some cmd) b w) =
           b\<lparr>status := ''working'', currentTask := ''Processing prompt'',
              stdin := snd (Fprintln (stdin b) text)\<rparr>"
    and "publishedOn (snd (handleCommand (Some cmd) b w)) c =
           (if c = natsClient b \<and> \<not> closed (conns w c)
            then publishedOn w c @ [(SubjectAgentStatus (agentID b),
                   StatusMessage (agentID b) ''working'' ''Processing prompt'' (now w))]
            else publishedOn w c)"
  using assms
  by (simp_all add: handleCommand_def asString_def publishStatus_def PublishJSON_def
      Publish_def Let_def publishedOn_def split: prod.splits)

text \<open>
  Claim C3. The command of type "prompt" with the text "fix the bug", handled by a new
  bridge on an open connection: the text and a newline are written to the standard
  input and a status event (working, "Processing prompt") is published, but the task
  that the bridge holds afterwards is "Processing prompt" and not the text, since
  \<open>publishStatus\<close> stores the task it publishes.
\<close>

theorem prompt_task_overwritten:
  "GetStatus (fst (handleCommand
      (Some \<lparr>Type = ''prompt'', Payload = [''text'' \<mapsto> JString ''fix the bug'']\<rparr>)
      bridge0 world0))
   = (''working'', ''Processing prompt'')
   \<and> written (stdin (fst (handleCommand
      (Some \<lparr>Type = ''prompt'', Payload = [''text'' \<mapsto> JString ''fix the bug'']\<rparr>)
      bridge0 world0)))
     = ''fix the bug'' @ [CHR 0x0A]
   \<and> publishedOn (snd (handleCommand
      (Some \<lparr>Type = ''prompt'', Payload = [''text'' \<mapsto> JString ''fix the bug'']\<rparr>)
      bridge0 world0)) 0
     = [(''agent.aider-1a2b3c4d.status'',
         StatusMessage ''aider-1a2b3c4d'' ''working'' ''Processing prompt'' 0)]"
  by code_simp

section \<open>Stopping a bridge\<close>

lemma Stop_again: "stopCh b \<Longrightarrow> Stop b w = (b, w)"
  by (simp add: Stop_def)

lemma Stop_close_fields:
  "stopCh (Stop_close b)" "\<not> connected (Stop_close b)"
  "natsClient (Stop_close b) = natsClient b" "agentID (Stop_close b) = agentID b"
  "wclosed (stdin (Stop_close b))" "rclosed (stdout (Stop_close b))"
  "rclosed (stderr (Stop_close b))"
  by (simp_all add: Stop_close_def Let_def CloseWriter_def CloseReader_def)

lemma Stop_publish_fields:
  "stopCh (fst (Stop_publish b w)) = stopCh b"
  "connected (fst (Stop_publish b w)) = connected b"
  "natsClient (fst (Stop_publish b w)) = natsClient b"
  "stdin (fst (Stop_publish b w)) = stdin b"
  "stdout (fst (Stop_publish b w)) = stdout b"
  "stderr (fst (Stop_publish b w)) = stderr b"
  by (simp_all add: Stop_publish_def publishStatus_def Let_def split: prod.splits)

lemma Stop_publish_conns:
  "conns (snd (Stop_publish b w)) c =
     (if c = natsClient b
      then (conns w c)\<lparr>closed := True,
             published := (if closed (conns w c) then published (conns w c)
                           else published (conns w c) @
                                [(SubjectAgentStatus (agentID b),
                                  StatusMessage (agentID b) ''disconnected''
                                    ''Bridge stopped'' (now w))])\<rparr>
      else conns w c)"
  by (simp add: Stop_publish_def Let_def publishStatus_def PublishJSON_def Publish_def
      Close_def split: prod.splits)

lemma Stop_publish_closed_conn:
  "closed (conns w c) \<Longrightarrow> conns (snd (Stop_publish b w)) c = conns w c"
  by (auto simp: Stop_publish_def Let_def publishStatus_def PublishJSON_def Publish_def
      Close_def split: prod.splits)

lemma Stop_fst:
  "\<not> stopCh b \<Longrightarrow> stopCh (fst (Stop b w)) \<and> \<not> connected (fst (Stop b w))
     \<and> natsClient (fst (Stop b w)) = natsClient b
     \<and> wclosed (stdin (fst (Stop b w))) \<and> rclosed (stdout (fst (Stop b w)))
     \<and> rclosed (stderr (fst (Stop b w)))"
  by (simp add: Stop_def Stop_publish_fields Stop_close_fields)

lemma Stop_conns:
  "\<not> stopCh b \<Longrightarrow> conns (snd (Stop b w)) c =
     (if c = natsClient b
      then (conns w c)\<lparr>closed := True,
             published := (if closed (conns w c) then published (conns w c)
                           else published (conns w c) @
                                [(SubjectAgentStatus (agentID b),
                                  StatusMessage (agentID b) ''disconnected''
                                    ''Bridge stopped'' (now w))])\<rparr>
      else conns w c)"
  by (simp add: Stop_def Stop_publish_conns Stop_close_fields)

lemma Stop_marks_closed: "\<not> stopCh b \<Longrightarrow> closed (conns (snd (Stop b w)) (natsClient b))"
  by (simp add: Stop_conns)

lemma Publish_closed:
  "closed (conns w c) \<Longrightarrow> Publish c subject m w = (Some ConnectionClosed, w)"
  by (simp add: Publish_def Let_def)

section \<open>Runs of a bridge\<close>

lemmas op_defs =
  parseAiderOutput_line_def parseAiderOutput_end_def
  parseAiderErrors_line_def handleCommand_def SendPrompt_def SendCommand_def
  parseAiderLine_def publishStatus_def publishOutput_def PublishJSON_def Publish_def
  Let_def

lemma opStep_natsClient: "natsClient (fst (opStep strings (b, w) x)) = natsClient b"
  by (cases x) (auto simp: op_defs split: prod.splits option.splits if_splits)

lemma opStep_stopCh: "stopCh (fst (opStep strings (b, w) x)) = stopCh b"
  by (cases x) (auto simp: op_defs split: prod.splits option.splits if_splits)

lemma opStep_connected:
  "connected (fst (opStep strings (b, w) x)) = (x \<noteq> StdoutEnd \<and> connected b)"
  by (cases x) (auto simp: op_defs split: prod.splits option.splits if_splits)

text \<open>No operation of any bridge changes a closed connection.\<close>

lemma opStep_closed_conn:
  "closed (conns w c) \<Longrightarrow> conns (snd (opStep strings (b, w) x)) c = conns w c"
  by (cases x) (auto simp: op_defs split: prod.splits option.splits if_splits)

lemma ops_frame:
  "natsClient (fst (foldl (opStep strings) s xs)) = natsClient (fst s)
   \<and> stopCh (fst (foldl (opStep strings) s xs)) = stopCh (fst s)
   \<and> (\<not> connected (fst s) \<longrightarrow> \<not> connected (fst (foldl (opStep strings) s xs)))
   \<and> (closed (conns (snd s) c) \<longrightarrow>
        conns (snd (foldl (opStep strings) s xs)) c = conns (snd s) c)"
proof (induction xs arbitrary: s)
  case Nil
  show ?case by simp
next
  case (Cons x xs)
  obtain b w where s: "s = (b, w)" by (cases s)
  show ?case
    using Cons.IH [of "opStep strings (b, w) x"] s
    by (simp add: opStep_natsClient opStep_stopCh opStep_connected opStep_closed_conn
        del: opStep.simps)
qed


lemma Start_mark_closed_conn:
  "closed (conns w c) \<Longrightarrow> conns (snd (Start_mark b w)) c = conns w c"
  by (auto simp: Start_mark_def publishStatus_def PublishJSON_def Publish_def Let_def)

lemma Subscribe_cases:
  "Subscribe c subject w =
     (if closed (conns w c) then (Some SubscribeFailed, w)
      else (None, w\<lparr>conns := (conns w)(c := (conns w c)
                      \<lparr>subscriptions := subscriptions (conns w c) @ [subject]\<rparr>)\<rparr>))"
  by (simp add: Subscribe_def Let_def)

lemma subscribed_conns:
  "c \<noteq> natsClient b \<Longrightarrow> conns (subscribed b w) c = conns w c"
  by (simp add: subscribed_def Subscribe_cases)

lemma step_CallStart:
  "step strings (b, w) (CallStart inside) =
     (if closed (conns w (natsClient b)) then (b, w)
      else Start_mark (fst (foldl (opStep strings) (b, subscribed b w) inside))
                      (snd (foldl (opStep strings) (b, subscribed b w) inside)))"
  by (simp add: subscribed_def Subscribe_cases split: prod.splits)

lemma step_CallStop:
  "step strings (b, w) (CallStop inside) =
     (if stopCh b then (b, w)
      else Stop_publish (fst (foldl (opStep strings) (Stop_close b, w) inside))
                        (snd (foldl (opStep strings) (Stop_close b, w) inside)))"
  by (simp split: prod.splits)





lemma step_closed_conn:
  "closed (conns w c) \<Longrightarrow> conns (snd (step strings (b, w) e)) c = conns w c"
proof (cases e)
  case (Op x)
  assume "closed (conns w c)"
  with Op show ?thesis by (simp add: opStep_closed_conn del: opStep.simps)
next
  case (CallStart inside)
  assume c: "closed (conns w c)"
  show ?thesis
  proof (cases "closed (conns w (natsClient b))")
    case True
    with CallStart show ?thesis by (simp add: step_CallStart del: step.simps)
  next
    case False
    have ne: "c \<noteq> natsClient b" using c False by auto
    have c': "conns (subscribed b w) c = conns w c" by (rule subscribed_conns [OF ne])
    have "conns (snd (foldl (opStep strings) (b, subscribed b w) inside)) c = conns w c"
      using ops_frame [of strings "(b, subscribed b w)" inside c] c c' by simp
    then show ?thesis
      using CallStart False c by (simp add: step_CallStart Start_mark_closed_conn del: step.simps)
  qed
next
  case (CallStop inside)
  assume c: "closed (conns w c)"
  show ?thesis
  proof (cases "stopCh b")
    case True
    with CallStop show ?thesis by simp
  next
    case False
    have "conns (snd (foldl (opStep strings) (Stop_close b, w) inside)) c = conns w c"
      using ops_frame [of strings "(Stop_close b, w)" inside c] c by simp
    then show ?thesis
      using CallStop False c
      by (simp add: step_CallStop Stop_publish_closed_conn del: step.simps)
  qed
qed

lemma step_Stop: "step strings (b, w) (CallStop []) = Stop b w"
  by (simp add: Stop_def)

lemma step_Start: "step strings (b, w) (CallStart []) = snd (Start b w)"
  by (simp add: Start_def split: prod.splits option.splits)

lemma run_Nil: "run strings s [] = s"
  by (simp add: run_def)

lemma run_Cons: "run strings s (e # evs) = run strings (step strings s e) evs"
  by (simp add: run_def)

lemma run_snoc: "run strings s (evs @ [e]) = step strings (run strings s evs) e"
  by (simp add: run_def)


lemma run_closed_conn:
  "closed (conns (snd s) c) \<Longrightarrow> conns (snd (run strings s evs)) c = conns (snd s) c"
proof (induction evs arbitrary: s)
  case Nil
  then show ?case by (simp add: run_Nil)
next
  case (Cons e evs)
  obtain b w where s: "s = (b, w)" by (cases s)
  from Cons.prems s have eq: "conns (snd (step strings s e)) c = conns (snd s) c"
    by (simp add: step_closed_conn del: step.simps)
  with Cons.prems have "closed (conns (snd (step strings s e)) c)" by simp
  from Cons.IH [OF this] eq show ?case by (simp add: run_Cons)
qed

text \<open>
  Claim C10. The first \<open>Stop\<close> of a bridge closes its client, after the status
  "disconnected" has gone out through it (where it was open), and closes the three
  files. From then on \<open>PublishJSON\<close> through that client returns an error and
  publishes nothing, and no operation of any bridge adds to what was published
  through it.
\<close>

theorem Stop_closes_client:
  assumes "\<not> stopCh b"
  shows "closed (conns (snd (Stop b w)) (natsClient b))
       \<and> publishedOn (snd (Stop b w)) (natsClient b) =
           (if closed (conns w (natsClient b)) then publishedOn w (natsClient b)
            else publishedOn w (natsClient b) @
                 [(SubjectAgentStatus (agentID b),
                   StatusMessage (agentID b) ''disconnected'' ''Bridge stopped'' (now w))])
       \<and> wclosed (stdin (fst (Stop b w))) \<and> rclosed (stdout (fst (Stop b w)))
       \<and> rclosed (stderr (fst (Stop b w)))
       \<and> PublishJSON (natsClient b) subject m (snd (Stop b w))
           = (Some ConnectionClosed, snd (Stop b w))
       \<and> publishedOn (snd (run strings (b', snd (Stop b w)) evs)) (natsClient b) =
           publishedOn (snd (Stop b w)) (natsClient b)"
proof -
  have c: "closed (conns (snd (Stop b w)) (natsClient b))"
    by (rule Stop_marks_closed [OF assms])
  have "conns (snd (run strings (b', snd (Stop b w)) evs)) (natsClient b)
        = conns (snd (Stop b w)) (natsClient b)"
    using run_closed_conn [of "(b', snd (Stop b w))" "natsClient b" strings evs] c by simp
  then show ?thesis
    using assms c Stop_fst [OF assms, of w]
    by (simp add: publishedOn_def Stop_conns PublishJSON_def Publish_closed)
qed

theorem Stop_closes_client_witness:
  "\<not> stopCh bridge0
   \<and> closed (conns (snd (Stop bridge0 world0)) (natsClient bridge0))
   \<and> PublishJSON (natsClient bridge0) ''agent.x.status''
        (StatusMessage ''x'' ''working'' ''t'' 0) (snd (Stop bridge0 world0))
       = (Some ConnectionClosed, snd (Stop bridge0 world0))"
proof -
  have h: "\<not> stopCh bridge0" by (simp add: bridge0_def NewBridge_def)
  from Stop_closes_client
         [OF h, of world0 "''agent.x.status''" "StatusMessage ''x'' ''working'' ''t'' 0"] h
  show ?thesis by blast
qed

text \<open>
  What the two calls of \<open>Stop\<close> publish by themselves, with nothing running beside
  them: the second call changes nothing, and one status "disconnected" goes out.
\<close>

lemma Stop_alone_publishes_once:
  assumes "\<not> stopCh b" and "\<not> closed (conns w (natsClient b))"
  shows "Stop (fst (Stop b w)) (snd (Stop b w)) = Stop b w
       \<and> publishedOn (snd (Stop (fst (Stop b w)) (snd (Stop b w)))) (natsClient b) =
           publishedOn w (natsClient b) @
             [(SubjectAgentStatus (agentID b),
               StatusMessage (agentID b) ''disconnected'' ''Bridge stopped'' (now w))]"
proof -
  have st: "stopCh (fst (Stop b w))" using Stop_fst [OF assms(1)] by simp
  have again: "Stop (fst (Stop b w)) (snd (Stop b w)) = Stop b w"
    using Stop_again [OF st] by simp
  show ?thesis
    using assms by (simp add: again publishedOn_def Stop_conns)
qed

lemma CallStop_again: "stopCh (fst s) \<Longrightarrow> step strings s (CallStop inside) = s"
  by (cases s) simp

text \<open>
  Claim C4. A bridge is started; \<open>Stop\<close> is called while the reader of the standard
  output waits for a line; \<open>Stop\<close> is called again. The second call changes nothing.
  But the first call closes the standard output before it publishes: the reader, woken
  at the end of its loop, where the channel is not looked at, publishes "disconnected"
  ("Aider process ended"), and \<open>Stop\<close> then publishes "disconnected" ("Bridge
  stopped"). Two such events are published, not one.
\<close>

theorem Stop_wakes_reader:
  "publishedOn (snd (run asciiStrings (bridge0, world0)
                       [CallStart [], CallStop [StdoutEnd], CallStop []])) 0 =
     [(''agent.aider-1a2b3c4d.status'',
       StatusMessage ''aider-1a2b3c4d'' ''connected'' ''Aider ready'' 0),
      (''agent.aider-1a2b3c4d.status'',
       StatusMessage ''aider-1a2b3c4d'' ''disconnected'' ''Aider process ended'' 0),
      (''agent.aider-1a2b3c4d.status'',
       StatusMessage ''aider-1a2b3c4d'' ''disconnected'' ''Bridge stopped'' 0)]
   \<and> run asciiStrings (bridge0, world0) [CallStart [], CallStop [StdoutEnd], CallStop []]
       = run asciiStrings (bridge0, world0) [CallStart [], CallStop [StdoutEnd]]"
proof -
  have p: "publishedOn (snd (run asciiStrings (bridge0, world0)
                       [CallStart [], CallStop [StdoutEnd]])) 0 =
     [(''agent.aider-1a2b3c4d.status'',
       StatusMessage ''aider-1a2b3c4d'' ''connected'' ''Aider ready'' 0),
      (''agent.aider-1a2b3c4d.status'',
       StatusMessage ''aider-1a2b3c4d'' ''disconnected'' ''Aider process ended'' 0),
      (''agent.aider-1a2b3c4d.status'',
       StatusMessage ''aider-1a2b3c4d'' ''disconnected'' ''Bridge stopped'' 0)]"
    by code_simp
  have st: "stopCh (fst (run asciiStrings (bridge0, world0)
                           [CallStart [], CallStop [StdoutEnd]]))"
    by code_simp
  have "run asciiStrings (bridge0, world0) [CallStart [], CallStop [StdoutEnd], CallStop []]
        = step asciiStrings
            (run asciiStrings (bridge0, world0) [CallStart [], CallStop [StdoutEnd]])
            (CallStop [])"
    using run_snoc [of asciiStrings "(bridge0, world0)" "[CallStart [], CallStop [StdoutEnd]]"
                       "CallStop []"]
    by simp
  also have "\<dots> = run asciiStrings (bridge0, world0) [CallStart [], CallStop [StdoutEnd]]"
    by (rule CallStop_again [OF st])
  finally show ?thesis using p by simp
qed

section \<open>The connectivity flag\<close>












section \<open>The supervisor\<close>

text \<open>
  Claim C5. \<open>SpawnAgent\<close> with a project path that is empty or that \<open>os.Stat\<close> reports
  as not existing returns an error; the supervisor, and so its map of agents, is as
  before, no process has been started, and nothing of the world has changed but the
  count of the identifiers drawn.
\<close>

theorem SpawnAgent_bad_path:
  assumes "ProjectPath cfg = [] \<or> stat w (ProjectPath cfg) = StatNotExist"
  shows "SpawnAgent cfg s w =
           (Inl (if ProjectPath cfg = [] then PathRequired
                 else PathDoesNotExist (ProjectPath cfg)),
            s, w\<lparr>uuidCount := uuidCount w + 1\<rparr>)
       \<and> isl (fst (SpawnAgent cfg s w))
       \<and> agents (fst (snd (SpawnAgent cfg s w))) = agents s
       \<and> started (snd (snd (SpawnAgent cfg s w))) = started w
       \<and> procs (snd (snd (SpawnAgent cfg s w))) = procs w
       \<and> conns (snd (snd (SpawnAgent cfg s w))) = conns w"
  using assms by (auto simp: SpawnAgent_def Let_def)

theorem SpawnAgent_bad_path_witness:
  "(ProjectPath (config0\<lparr>ProjectPath := ''/nowhere''\<rparr>) = []
      \<or> stat world0 (ProjectPath (config0\<lparr>ProjectPath := ''/nowhere''\<rparr>)) = StatNotExist)
   \<and> fst (SpawnAgent (config0\<lparr>ProjectPath := ''/nowhere''\<rparr>) (NewSpawner 0) world0)
        = Inl (PathDoesNotExist ''/nowhere'')
   \<and> agents (fst (snd (SpawnAgent (config0\<lparr>ProjectPath := ''/nowhere''\<rparr>)
                         (NewSpawner 0) world0))) = []
   \<and> started (snd (snd (SpawnAgent (config0\<lparr>ProjectPath := ''/nowhere''\<rparr>)
                          (NewSpawner 0) world0))) = []"
proof -
  have h: "ProjectPath (config0\<lparr>ProjectPath := ''/nowhere''\<rparr>) = []
      \<or> stat world0 (ProjectPath (config0\<lparr>ProjectPath := ''/nowhere''\<rparr>)) = StatNotExist"
    by (simp add: config0_def world0_def)
  have e: "ProjectPath (config0\<lparr>ProjectPath := ''/nowhere''\<rparr>) = ''/nowhere''"
    "agents (NewSpawner 0) = []" "started world0 = []"
    by (simp_all add: NewSpawner_def world0_def)
  from SpawnAgent_bad_path [OF h, of "NewSpawner 0"] h show ?thesis by (simp add: e)
qed

text \<open>
  Claim C6. \<open>StopAgent\<close> with an identifier that the map of agents does not hold
  returns the error "not found" and leaves the supervisor and the world as they are:
  no bridge is stopped, nothing is written, published, signalled or killed.
\<close>

theorem StopAgent_unknown_id:
  assumes "map_of (agents s) aid = None"
  shows "StopAgent aid s w = (Some (AgentNotFound aid), s, w)"
  using assms by (simp add: StopAgent_def)

theorem StopAgent_unknown_id_witness:
  "map_of (agents (fst (snd afterSpawn))) ''aider-00000000'' = None
   \<and> StopAgent ''aider-00000000'' (fst (snd afterSpawn)) (snd (snd afterSpawn))
       = (Some (AgentNotFound ''aider-00000000''), fst (snd afterSpawn), snd (snd afterSpawn))"
proof -
  have h: "map_of (agents (fst (snd afterSpawn))) ''aider-00000000'' = None" by code_simp
  from StopAgent_unknown_id [OF h] h show ?thesis by blast
qed

lemma Stop_natsConn_again: "stopCh b \<Longrightarrow> Stop_natsConn b w = (b, w)"
  by (simp add: Stop_natsConn_def)



lemma Stop_natsConn_fst:
  "\<not> stopCh b \<Longrightarrow> fst (Stop_natsConn b w) =
     (Stop_close b)\<lparr>status := ''disconnected'', currentTask := ''Bridge stopped''\<rparr>"
  by (simp add: Stop_natsConn_def publishStatus_fst)



text \<open>The keys of the map stay distinct.\<close>

lemma distinct_agents:
  "distinct (map fst (agents (NewSpawner nc)))"
  "distinct (map fst (agents s)) \<Longrightarrow> distinct (map fst (agents (fst (snd (SpawnAgent cfg s w)))))"
  "distinct (map fst (agents s)) \<Longrightarrow> distinct (map fst (agents (fst (snd (StopAgent aid s w)))))"
proof -
  show "distinct (map fst (agents (NewSpawner nc)))" by (simp add: NewSpawner_def)
next
  assume d: "distinct (map fst (agents s))"
  then show "distinct (map fst (agents (fst (snd (SpawnAgent cfg s w)))))"
    by (auto simp: SpawnAgent_def Let_def distinct_update
        split: ExecOutcome.splits prod.splits option.splits)
next
  assume d: "distinct (map fst (agents s))"
  then show "distinct (map fst (agents (fst (snd (StopAgent aid s w)))))"
    by (auto simp: StopAgent_def Let_def distinct_delete
        split: option.splits prod.splits)
qed



















end
